theory Spec2Isabelle
  imports Main
begin

section \<open>The class \<open>elh::proqueue<T>\<close> of \<open>proqueue.h\<close>\<close>

subsection \<open>Data\<close>

text \<open>
  A callback is a \<open>std::function<void(T&)>\<close>. It receives the head element by mutable
  reference and may act on anything outside the queue (the header's example prints), so it
  is a function from the element and the outside world \<open>'w\<close> to the element it leaves
  behind and the new outside world. A \<open>std::function\<close> may be empty (\<open>None\<close>): that is
  what \<open>if (i)\<close> in \<open>proc_one\<close> and the predicate of \<open>tasks_count\<close> test.
\<close>

type_synonym ('a, 'w) callback = "'a \<Rightarrow> 'w \<Rightarrow> 'a \<times> 'w"
type_synonym ('a, 'w) function_type = "('a, 'w) callback option"

definition MAX_TASK_SIZE :: nat where
  "MAX_TASK_SIZE = 10"

text \<open>
  The threads that touch a queue: the one started by the constructor, which runs
  \<open>thread_work\<close>, and the threads of the program that call the public members.
\<close>

datatype thread = Worker | Caller

text \<open>
  Where the worker stands in \<open>thread_work\<close> (lines 72 to 85):
  \<^item> \<open>W_LoopTest\<close>: at the test \<open>while (!shutdown_required)\<close>, line 74;
  \<^item> \<open>W_Lock\<close>: at \<open>auto lock = get_lock()\<close>, line 75;
  \<^item> \<open>W_Check\<close>: holding the lock, at \<open>if (!state_is_ready()) condition.wait(...)\<close>, line 77;
  \<^item> \<open>W_Wait\<close>: blocked inside \<open>condition.wait\<close>, the lock released;
  \<^item> \<open>W_Woken\<close>: notified, about to take the lock again and test the predicate of the wait;
  \<^item> \<open>W_Proc\<close>: holding the lock, at \<open>proc_one()\<close>, line 78;
  \<^item> \<open>W_DrainTest\<close>: at the test \<open>while (!empty())\<close>, line 82;
  \<^item> \<open>W_Drain\<close>: at \<open>proc_one()\<close>, line 83;
  \<^item> \<open>W_Done\<close>: \<open>thread_work\<close> has returned.
\<close>

datatype wpc = W_LoopTest | W_Lock | W_Check | W_Wait | W_Woken | W_Proc
  | W_DrainTest | W_Drain | W_Done

text \<open>
  The errors a call can raise. \<open>CapacityExceeded\<close> is the \<open>std::out_of_range\<close> of
  \<open>tasks.at\<close> (rethrown by \<open>add_callback\<close> with the message "Size of tasks exceeds
  MAX_TASK_SIZE"); \<open>JoinError\<close> is the \<open>std::system_error\<close> of \<open>std::thread::join\<close> on
  a handle that is not joinable. \<open>EmptyQueueAccess\<close> is the name the specification
  uses; no function of the source raises it.
\<close>

datatype error = CapacityExceeded | JoinError | EmptyQueueAccess

text \<open>
  How a call ends: it returns a value and leaves a state; it throws and leaves a state;
  it has undefined behaviour (a precondition of the standard library is violated, as by
  \<open>front\<close> or \<open>pop\<close> of an empty \<open>std::queue\<close>); an exception leaves a \<open>noexcept\<close>
  function, which calls \<open>std::terminate\<close>; or it does not return in the state it is
  called in (it waits for the mutex or for the worker thread).
\<close>

datatype ('r, 's) outcome = Returns 'r 's | Throws error 's | Undefined | Terminates | Blocks

datatype fault = UndefinedBehaviour | Terminate

text \<open>
  The object. \<open>storage\<close> is the base class \<open>std::queue<T>\<close>, head first; \<open>tasks\<close> is the
  \<open>std::array\<close> of \<open>MAX_TASK_SIZE\<close> slots; \<open>mutex\<close> is the owner of the recursive mutex
  (a recursive acquisition by the owner leaves the owner as it is); \<open>worker\<close> and
  \<open>joinable\<close> are the \<open>std::thread\<close>: where its function stands and whether the handle
  can still be joined. \<open>world\<close> is what the callbacks act on, outside the object.

  The last four fields belong to the program around the object: \<open>in_pop\<close> counts the
  callers inside \<open>pop()\<close> that are past \<open>get_lock();\<close> and before
  \<open>std::queue<T>::pop()\<close>, \<open>in_stop\<close> the callers inside \<open>stop()\<close> that are past
  \<open>condition.notify_one()\<close> and before the return of \<open>thread.join()\<close>, \<open>stopped\<close> the
  calls of \<open>stop()\<close> that have returned, and \<open>fault\<close> records that the program has
  left defined behaviour or has been terminated.
\<close>

record ('a, 'w) proqueue =
  storage :: "'a list"
  tasks :: "('a, 'w) function_type list"
  mutex :: "thread option"
  shutdown_required :: bool
  worker :: wpc
  joinable :: bool
  world :: 'w
  in_pop :: nat
  in_stop :: nat
  stopped :: nat
  fault :: "fault option"

subsection \<open>Private members\<close>

definition empty_q :: "('a, 'w) proqueue \<Rightarrow> bool" where
  "empty_q s = (storage s = [])"

definition size_q :: "('a, 'w) proqueue \<Rightarrow> nat" where
  "size_q s = length (storage s)"

text \<open>Line 40: \<open>return !shutdown_required && !empty();\<close>\<close>

definition state_is_ready :: "('a, 'w) proqueue \<Rightarrow> bool" where
  "state_is_ready s = (\<not> shutdown_required s \<and> \<not> empty_q s)"

text \<open>
  The predicate of the wait, line 77: \<open>(!empty()) || shutdown_required\<close>, the right
  operand evaluated when the queue is empty.
\<close>

definition wait_pred :: "('a, 'w) proqueue \<Rightarrow> bool" where
  "wait_pred s = (if empty_q s then shutdown_required s else True)"

text \<open>
  \<open>get_lock()\<close> called by thread \<open>t\<close> can take the recursive mutex when it is free or \<open>t\<close>
  owns it already.
\<close>

definition can_lock :: "thread \<Rightarrow> ('a, 'w) proqueue \<Rightarrow> bool" where
  "can_lock t s = (mutex s = None \<or> mutex s = Some t)"

subsection \<open>The queue operations\<close>

text \<open>
  \<open>std::queue<T>::front\<close>, \<open>back\<close> (here \<open>back_q\<close>) and \<open>pop\<close>, which require a
  non-empty queue.
\<close>

definition front :: "('a, 'w) proqueue \<Rightarrow> ('a, ('a, 'w) proqueue) outcome" where
  "front s = (case storage s of [] \<Rightarrow> Undefined | x # xs \<Rightarrow> Returns x s)"

definition back_q :: "('a, 'w) proqueue \<Rightarrow> ('a, ('a, 'w) proqueue) outcome" where
  "back_q s = (if storage s = [] then Undefined else Returns (last (storage s)) s)"

definition queue_pop :: "('a, 'w) proqueue \<Rightarrow> (unit, ('a, 'w) proqueue) outcome" where
  "queue_pop s = (case storage s of [] \<Rightarrow> Undefined | x # xs \<Rightarrow> Returns () (s\<lparr>storage := xs\<rparr>))"

text \<open>
  Lines 129 to 133. The statement \<open>get_lock();\<close> builds a temporary \<open>unique_lock\<close>, which
  is destroyed at the end of the statement: the caller waits until it can take the mutex,
  and gives it back before \<open>std::queue<T>::pop()\<close> runs.
\<close>

definition pop :: "thread \<Rightarrow> ('a, 'w) proqueue \<Rightarrow> (unit, ('a, 'w) proqueue) outcome" where
  "pop t s = (if can_lock t s then queue_pop s else Blocks)"

text \<open>Lines 135 to 138: \<open>std::queue<T>::push(t);\<close> and nothing else.\<close>

definition push :: "'a \<Rightarrow> ('a, 'w) proqueue \<Rightarrow> ('a, 'w) proqueue" where
  "push v s = s\<lparr>storage := storage s @ [v]\<rparr>"

subsection \<open>The callback registry\<close>

text \<open>
  The conversion of a \<open>std::function\<close> to \<open>bool\<close>: whether the slot holds a function.
\<close>

definition has_function :: "('a, 'w) function_type \<Rightarrow> bool" where
  "has_function func = (func \<noteq> None)"

text \<open>Lines 106 to 111: \<open>std::count_if\<close> of the slots that hold a function.\<close>

definition tasks_count :: "('a, 'w) proqueue \<Rightarrow> nat" where
  "tasks_count s = length (filter has_function (tasks s))"

text \<open>
  Lines 113 to 121: \<open>auto l = get_lock(); try { tasks.at(tasks()) = callback; } catch
  ...\<close>. The index is written \<open>tasks()\<close>. \<open>tasks\<close> is a \<open>std::array\<close>, which has no
  call operator, so this is not an expression of the language and the member has no
  instance; the source does not say which slot is meant. The index is therefore a
  parameter here: \<open>index s\<close> is the number that stands where \<open>tasks()\<close> is written.
  \<open>tasks.at(n)\<close> throws when \<open>n\<close> is not below the size of the array, before anything
  is assigned; the handler throws the same kind of exception again.
\<close>

definition add_callback_at ::
  "(('a, 'w) proqueue \<Rightarrow> nat) \<Rightarrow> thread \<Rightarrow> ('a, 'w) function_type \<Rightarrow> ('a, 'w) proqueue
     \<Rightarrow> (unit, ('a, 'w) proqueue) outcome" where
  "add_callback_at index t callback s =
     (if \<not> can_lock t s then Blocks
      else if index s < MAX_TASK_SIZE
        then Returns () (s\<lparr>tasks := (tasks s)[index s := callback]\<rparr>)
        else Throws CapacityExceeded s)"

text \<open>
  One way to make the member well-formed is to read \<open>tasks()\<close> as \<open>tasks_count()\<close>, the
  member of the class that yields a number of slots. That reading is a repair of the
  source, not the source; it is the one the program around the queue is run with below.
\<close>

definition add_callback ::
  "thread \<Rightarrow> ('a, 'w) function_type \<Rightarrow> ('a, 'w) proqueue \<Rightarrow> (unit, ('a, 'w) proqueue) outcome" where
  "add_callback t callback s = add_callback_at tasks_count t callback s"

subsection \<open>Construction\<close>

text \<open>
  The members as their default initialisers leave them, with the thread started by the
  member initialiser \<open>thread { &proqueue<T>::thread_work, this }\<close> and standing before
  its first test of line 74. The members are initialised in the order of their
  declaration, and \<open>thread\<close> (line 36) is declared before \<open>shutdown_required\<close> (line 37):
  a worker that makes its first test before the flag has been initialised reads an
  indeterminate value. \<open>fresh\<close> is the object of a construction in which the worker makes
  that test after the initialisers have run; the other case is looked at in
  \<open>early_worker_start\<close>.
\<close>

definition fresh :: "'w \<Rightarrow> ('a, 'w) proqueue" where
  "fresh w = \<lparr>storage = [], tasks = replicate MAX_TASK_SIZE None, mutex = None,
     shutdown_required = False, worker = W_LoopTest, joinable = True, world = w,
     in_pop = 0, in_stop = 0, stopped = 0, fault = None\<rparr>"

text \<open>
  Lines 96 to 99. The body is the single statement \<open>tasks.at(tasks()) = func;\<close>, with
  the same ill-formed index as in \<open>add_callback\<close>, a parameter here as it is there. The
  pack \<open>remaining\<close> is not used.
\<close>

definition proqueue_ctor_at ::
  "(('a, 'w) proqueue \<Rightarrow> nat) \<Rightarrow> ('a, 'w) function_type \<Rightarrow> ('a, 'w) function_type list \<Rightarrow> 'w
     \<Rightarrow> (unit, ('a, 'w) proqueue) outcome" where
  "proqueue_ctor_at index func remaining w =
     (let s = fresh w in
      if index s < MAX_TASK_SIZE
        then Returns () (s\<lparr>tasks := (tasks s)[index s := func]\<rparr>)
        else Throws CapacityExceeded s)"

text \<open>The constructor under the reading of \<open>tasks()\<close> as \<open>tasks_count()\<close>.\<close>

definition proqueue_ctor ::
  "('a, 'w) function_type \<Rightarrow> ('a, 'w) function_type list \<Rightarrow> 'w \<Rightarrow> (unit, ('a, 'w) proqueue) outcome" where
  "proqueue_ctor func remaining w = proqueue_ctor_at tasks_count func remaining w"

text \<open>The object a successful construction leaves.\<close>

definition constructed :: "('a, 'w) function_type \<Rightarrow> ('a, 'w) function_type list \<Rightarrow> 'w \<Rightarrow> ('a, 'w) proqueue" where
  "constructed func remaining w =
     (case proqueue_ctor func remaining w of Returns u s \<Rightarrow> s | _ \<Rightarrow> fresh w)"

subsection \<open>Processing one element\<close>

text \<open>
  The body of the loop of \<open>proc_one\<close>, line 91: \<open>if (i) i(target);\<close> where \<open>target\<close> is
  the reference \<open>front()\<close>. The callback changes the head element where it lies. The
  loop is entered only after \<open>front()\<close> has returned, so there is a head element.
\<close>

definition call_task :: "('a, 'w) function_type \<Rightarrow> ('a, 'w) proqueue \<Rightarrow> ('a, 'w) proqueue" where
  "call_task i s =
     (case i of
        None \<Rightarrow> s
      | Some f \<Rightarrow> (case f (hd (storage s)) (world s) of
                    (x, w) \<Rightarrow> s\<lparr>storage := x # tl (storage s), world := w\<rparr>))"

text \<open>The loop \<open>for (auto& i : tasks)\<close>, lines 90 to 92.\<close>

definition run_tasks :: "('a, 'w) proqueue \<Rightarrow> ('a, 'w) proqueue" where
  "run_tasks s = fold call_task (tasks s) s"

text \<open>
  A function declared \<open>noexcept\<close>: an exception that would leave it terminates the
  program.
\<close>

definition noexcept :: "('r, 's) outcome \<Rightarrow> ('r, 's) outcome" where
  "noexcept r = (case r of Throws e s1 \<Rightarrow> Terminates | _ \<Rightarrow> r)"

text \<open>
  Lines 87 to 94. \<open>front()\<close> of an empty queue is undefined; otherwise the callbacks run
  and the member \<open>pop()\<close> is called, by the worker.
\<close>

definition proc_one :: "('a, 'w) proqueue \<Rightarrow> (unit, ('a, 'w) proqueue) outcome" where
  "proc_one s =
     noexcept (case front s of
        Returns target s1 \<Rightarrow> pop Worker (run_tasks s1)
      | Throws e s1 \<Rightarrow> Throws e s1
      | Undefined \<Rightarrow> Undefined
      | Terminates \<Rightarrow> Terminates
      | Blocks \<Rightarrow> Blocks)"

subsection \<open>Stopping\<close>

text \<open>
  \<open>condition.notify_one()\<close>: a thread blocked in the wait is woken, and will test the
  predicate of its wait once it has the lock again; nothing happens when no thread waits.
\<close>

definition notify_one :: "('a, 'w) proqueue \<Rightarrow> ('a, 'w) proqueue" where
  "notify_one s = (if worker s = W_Wait then s\<lparr>worker := W_Woken\<rparr> else s)"

text \<open>
  \<open>thread.join()\<close>: throws \<open>std::system_error\<close> when the handle is not joinable;
  otherwise it returns once the thread function has returned, and the handle is no longer
  joinable.
\<close>

definition thread_join :: "('a, 'w) proqueue \<Rightarrow> (unit, ('a, 'w) proqueue) outcome" where
  "thread_join s =
     (if \<not> joinable s then Throws JoinError s
      else if worker s = W_Done then Returns () (s\<lparr>joinable := False\<rparr>)
      else Blocks)"

text \<open>
  Lines 123 to 127: \<open>condition.notify_one(); thread.join();\<close>, in a function
  declared \<open>noexcept\<close>.
\<close>

definition stop :: "('a, 'w) proqueue \<Rightarrow> (unit, ('a, 'w) proqueue) outcome" where
  "stop s = noexcept (thread_join (notify_one s))"

text \<open>Lines 101 to 104: the destructor calls \<open>stop()\<close>.\<close>

definition destructor :: "('a, 'w) proqueue \<Rightarrow> (unit, ('a, 'w) proqueue) outcome" where
  "destructor s = stop s"

subsection \<open>The worker thread\<close>

text \<open>How the program goes on from state \<open>s\<close> after a call with the given outcome.\<close>

definition settle :: "(unit, ('a, 'w) proqueue) outcome \<Rightarrow> ('a, 'w) proqueue \<Rightarrow> ('a, 'w) proqueue option" where
  "settle r s =
     (case r of
        Returns u s1 \<Rightarrow> Some s1
      | Throws e s1 \<Rightarrow> Some s1
      | Undefined \<Rightarrow> Some (s\<lparr>fault := Some UndefinedBehaviour\<rparr>)
      | Terminates \<Rightarrow> Some (s\<lparr>fault := Some Terminate\<rparr>)
      | Blocks \<Rightarrow> None)"

text \<open>
  One step of \<open>thread_work\<close>, lines 72 to 85; \<open>None\<close> when the worker cannot move.
  \<open>condition.wait(lock, pred)\<close> is \<open>while (!pred()) wait(lock);\<close>: the predicate is
  tested with the lock held, the lock is released while the thread is blocked, and it is
  taken again before the predicate is tested anew. The lock of line 75 is released at
  the end of each iteration of the first loop; the second loop takes no lock. A call of
  \<open>proc_one()\<close> is one step of the worker.
\<close>

definition worker_step :: "('a, 'w) proqueue \<Rightarrow> ('a, 'w) proqueue option" where
  "worker_step s =
     (case worker s of
        W_LoopTest \<Rightarrow> Some (s\<lparr>worker := (if shutdown_required s then W_DrainTest else W_Lock)\<rparr>)
      | W_Lock \<Rightarrow>
          (if can_lock Worker s then Some (s\<lparr>mutex := Some Worker, worker := W_Check\<rparr>) else None)
      | W_Check \<Rightarrow>
          (if state_is_ready s then Some (s\<lparr>worker := W_Proc\<rparr>)
           else if wait_pred s then Some (s\<lparr>worker := W_Proc\<rparr>)
           else Some (s\<lparr>mutex := None, worker := W_Wait\<rparr>))
      | W_Wait \<Rightarrow> None
      | W_Woken \<Rightarrow>
          (if can_lock Worker s
           then (if wait_pred s then Some (s\<lparr>mutex := Some Worker, worker := W_Proc\<rparr>)
                 else Some (s\<lparr>mutex := None, worker := W_Wait\<rparr>))
           else None)
      | W_Proc \<Rightarrow>
          (case proc_one s of
             Returns u s1 \<Rightarrow> Some (s1\<lparr>mutex := None, worker := W_LoopTest\<rparr>)
           | r \<Rightarrow> settle r s)
      | W_DrainTest \<Rightarrow> Some (s\<lparr>worker := (if empty_q s then W_Done else W_Drain)\<rparr>)
      | W_Drain \<Rightarrow>
          (case proc_one s of
             Returns u s1 \<Rightarrow> Some (s1\<lparr>worker := W_DrainTest\<rparr>)
           | r \<Rightarrow> settle r s)
      | W_Done \<Rightarrow> None)"

subsection \<open>The program around the queue\<close>

text \<open>
  What can happen next to a queue: the worker takes a step (\<open>Work\<close>), the waiting worker
  wakes without a notification (\<open>Wakeup\<close>, which \<open>std::condition_variable_any\<close> allows),
  or some thread of the program is inside a public member. \<open>push\<close> and \<open>add_callback\<close>
  are one step each (the latter holds the lock throughout). \<open>pop()\<close> is two steps, since
  it gives the lock back before it removes the head: \<open>PopEnter\<close> is \<open>get_lock();\<close> and
  \<open>PopBody\<close> is \<open>std::queue<T>::pop();\<close>. \<open>stop()\<close> is two steps: \<open>StopEnter\<close> is
  \<open>condition.notify_one();\<close> and \<open>StopJoin\<close> is the return of \<open>thread.join();\<close>.
\<close>

datatype ('a, 'w) action =
    Work
  | Wakeup
  | Push 'a
  | AddCallback "('a, 'w) function_type"
  | PopEnter
  | PopBody
  | StopEnter
  | StopJoin

text \<open>One step of the program; \<open>None\<close> when the action cannot happen in \<open>s\<close>.\<close>

definition step :: "('a, 'w) action \<Rightarrow> ('a, 'w) proqueue \<Rightarrow> ('a, 'w) proqueue option" where
  "step a s =
     (if fault s \<noteq> None then None
      else case a of
        Work \<Rightarrow> worker_step s
      | Wakeup \<Rightarrow> Some (notify_one s)
      | Push v \<Rightarrow> Some (push v s)
      | AddCallback callback \<Rightarrow> settle (add_callback Caller callback s) s
      | PopEnter \<Rightarrow> (if can_lock Caller s then Some (s\<lparr>in_pop := Suc (in_pop s)\<rparr>) else None)
      | PopBody \<Rightarrow>
          (if in_pop s = 0 then None
           else settle (queue_pop (s\<lparr>in_pop := in_pop s - 1\<rparr>)) s)
      | StopEnter \<Rightarrow> Some ((notify_one s)\<lparr>in_stop := Suc (in_stop s)\<rparr>)
      | StopJoin \<Rightarrow>
          (if in_stop s = 0 then None
           else case thread_join s of
             Returns u s1 \<Rightarrow> Some (s1\<lparr>in_stop := in_stop s - 1, stopped := Suc (stopped s)\<rparr>)
           | r \<Rightarrow> settle (noexcept r) s))"

text \<open>
  A schedule is a list of actions. An action that cannot happen where the schedule asks
  for it leaves the state as it is: that thread stays blocked.
\<close>

definition attempt :: "('a, 'w) action \<Rightarrow> ('a, 'w) proqueue \<Rightarrow> ('a, 'w) proqueue" where
  "attempt a s = (case step a s of None \<Rightarrow> s | Some s1 \<Rightarrow> s1)"

definition run :: "('a, 'w) action list \<Rightarrow> ('a, 'w) proqueue \<Rightarrow> ('a, 'w) proqueue" where
  "run sched s = fold attempt sched s"

subsection \<open>Predicates on the registry\<close>

text \<open>The slots that hold a function, in slot order.\<close>

definition occupied :: "('a, 'w) function_type list \<Rightarrow> ('a, 'w) callback list" where
  "occupied ts = map the (filter has_function ts)"

text \<open>The index of the first empty slot (the number of slots, when none is empty).\<close>

definition lowest_empty_slot :: "('a, 'w) function_type list \<Rightarrow> nat" where
  "lowest_empty_slot ts = length (takeWhile has_function ts)"

text \<open>
  The registry as the constructor and \<open>add_callback\<close> leave it: \<open>MAX_TASK_SIZE\<close> slots,
  and no slot that holds a function comes after an empty one.
\<close>

definition filled_left_to_right :: "('a, 'w) function_type list \<Rightarrow> bool" where
  "filled_left_to_right ts =
     (length ts = MAX_TASK_SIZE \<and> list_all (\<lambda>func. func = None) (dropWhile has_function ts))"

text \<open>The callbacks applied one after the other to an element and the outside world.\<close>

definition apply_all :: "('a, 'w) callback list \<Rightarrow> 'a \<times> 'w \<Rightarrow> 'a \<times> 'w" where
  "apply_all fs p = fold (\<lambda>f (x, w). f x w) fs p"

subsection \<open>Example data\<close>

text \<open>
  The callback of the header's example, \<open>[] (int i) { std::cout << i << std::endl; }\<close>,
  with the lines printed so far as the outside world, and the queue constructed with it.
\<close>

definition print_callback :: "(int, int list) callback" where
  "print_callback i out = (i, out @ [i])"

definition example_queue :: "(int, int list) proqueue" where
  "example_queue = constructed (Some print_callback) [] []"

text \<open>A callback that changes the element it is given.\<close>

definition double_callback :: "(int, int list) callback" where
  "double_callback i out = (2 * i, out)"

text \<open>A queue of two elements whose registry has an empty slot between two functions.\<close>

definition gapped_queue :: "(int, int list) proqueue" where
  "gapped_queue = example_queue\<lparr>storage := [5, 6],
     tasks := [Some double_callback, None, Some print_callback] @ replicate 7 None\<rparr>"

subsection \<open>An invariant of the running program\<close>

text \<open>
  No shutdown has been requested, the thread handle has not been joined, no call of
  \<open>stop()\<close> has returned, and the worker is in the first loop of \<open>thread_work\<close>.
\<close>

definition never_shut :: "('a, 'w) proqueue \<Rightarrow> bool" where
  "never_shut s = (\<not> shutdown_required s \<and> joinable s \<and> stopped s = 0 \<and>
     worker s \<noteq> W_DrainTest \<and> worker s \<noteq> W_Drain \<and> worker s \<noteq> W_Done)"

section \<open>Auxiliary facts\<close>

subsection \<open>The registry\<close>

lemma has_function_simps [simp]: "has_function None = False" "has_function (Some f) = True"
  by (simp_all add: has_function_def)

lemma filter_all_None: "list_all (\<lambda>func. func = None) xs \<Longrightarrow> filter has_function xs = []"
  by (induction xs) auto

lemma all_None_dropWhile:
  "list_all (\<lambda>func. func = None) xs \<Longrightarrow> list_all (\<lambda>func. func = None) (dropWhile has_function xs)"
  by (induction xs) auto

lemma all_None_replicate: "list_all (\<lambda>func. func = None) (replicate n None)"
  by (induction n) auto

lemma filter_takeWhile_same: "filter P (takeWhile P xs) = takeWhile P xs"
  by (induction xs) auto

lemma count_eq_lowest:
  assumes "list_all (\<lambda>func. func = None) (dropWhile has_function ts)"
  shows "length (filter has_function ts) = lowest_empty_slot ts"
proof -
  have "filter has_function ts =
        filter has_function (takeWhile has_function ts) @ filter has_function (dropWhile has_function ts)"
    by (metis filter_append takeWhile_dropWhile_id)
  also have "\<dots> = takeWhile has_function ts"
    using assms by (simp add: filter_all_None filter_takeWhile_same)
  finally show ?thesis by (simp add: lowest_empty_slot_def)
qed

lemma lowest_slot_is_empty:
  "lowest_empty_slot ts < length ts \<Longrightarrow> ts ! lowest_empty_slot ts = None"
  unfolding lowest_empty_slot_def
  using nth_length_takeWhile[of has_function ts] by (simp add: has_function_def)

lemma below_lowest_occupied: "i < lowest_empty_slot ts \<Longrightarrow> ts ! i \<noteq> None"
proof (induction ts arbitrary: i)
  case Nil
  then show ?case by (simp add: lowest_empty_slot_def)
next
  case (Cons a ts)
  then show ?case by (cases a; cases i) (simp_all add: lowest_empty_slot_def)
qed

lemma filled_update:
  assumes "list_all (\<lambda>func. func = None) (dropWhile has_function ts)"
  shows "list_all (\<lambda>func. func = None) (dropWhile has_function (ts[lowest_empty_slot ts := cb]))"
  using assms
proof (induction ts)
  case Nil
  then show ?case by simp
next
  case (Cons a ts)
  show ?case
  proof (cases a)
    case None
    with Cons.prems have "list_all (\<lambda>func. func = None) ts" by simp
    with None show ?thesis by (cases cb) (simp_all add: lowest_empty_slot_def all_None_dropWhile)
  next
    case (Some f)
    with Cons show ?thesis by (simp add: lowest_empty_slot_def)
  qed
qed

lemma tasks_count_fresh: "tasks_count (fresh w) = 0"
  by (simp add: tasks_count_def fresh_def filter_all_None all_None_replicate)

lemma constructed_eq:
  "constructed func remaining w = (fresh w)\<lparr>tasks := (tasks (fresh w))[0 := func]\<rparr>"
  by (simp add: constructed_def proqueue_ctor_def proqueue_ctor_at_def tasks_count_fresh Let_def MAX_TASK_SIZE_def)

lemma ctor_returns: "proqueue_ctor func remaining w = Returns () (constructed func remaining w)"
  by (simp add: constructed_def proqueue_ctor_def proqueue_ctor_at_def tasks_count_fresh Let_def MAX_TASK_SIZE_def)

lemma example_queue_eq:
  "example_queue = \<lparr>storage = [], tasks = Some print_callback # replicate 9 None, mutex = None,
     shutdown_required = False, worker = W_LoopTest, joinable = True, world = [],
     in_pop = 0, in_stop = 0, stopped = 0, fault = None\<rparr>"
  by (simp add: example_queue_def constructed_eq fresh_def MAX_TASK_SIZE_def eval_nat_numeral)

subsection \<open>Processing one element\<close>

lemma fold_call_task_eq:
  "storage s = v # rest \<Longrightarrow>
   fold call_task ts s =
     s\<lparr>storage := fst (apply_all (occupied ts) (v, world s)) # rest,
       world := snd (apply_all (occupied ts) (v, world s))\<rparr>"
proof (induction ts arbitrary: s v)
  case Nil
  then show ?case by (simp add: apply_all_def occupied_def)
next
  case (Cons i ts)
  show ?case
  proof (cases i)
    case None
    with Cons show ?thesis by (simp add: call_task_def occupied_def)
  next
    case (Some f)
    obtain x w where fx: "f v (world s) = (x, w)" by (cases "f v (world s)")
    let ?s1 = "s\<lparr>storage := x # rest, world := w\<rparr>"
    have c: "call_task i s = ?s1" using Some fx Cons.prems by (simp add: call_task_def)
    have "storage ?s1 = x # rest" by simp
    from Cons.IH[OF this] c Some fx show ?thesis
      by (simp add: occupied_def apply_all_def)
  qed
qed

lemma fold_call_task_frame:
  "shutdown_required (fold call_task ts s) = shutdown_required s \<and>
   joinable (fold call_task ts s) = joinable s \<and>
   stopped (fold call_task ts s) = stopped s \<and>
   worker (fold call_task ts s) = worker s \<and>
   mutex (fold call_task ts s) = mutex s \<and>
   tasks (fold call_task ts s) = tasks s \<and>
   in_pop (fold call_task ts s) = in_pop s \<and>
   in_stop (fold call_task ts s) = in_stop s \<and>
   fault (fold call_task ts s) = fault s"
  by (induction ts arbitrary: s) (auto simp: call_task_def split: option.splits prod.splits)

lemma proc_one_frame:
  assumes "proc_one s = Returns u s1"
  shows "shutdown_required s1 = shutdown_required s \<and> joinable s1 = joinable s \<and>
         stopped s1 = stopped s \<and> worker s1 = worker s \<and> tasks s1 = tasks s"
  using assms fold_call_task_frame[of "tasks s" s]
  by (auto simp: proc_one_def noexcept_def front_def pop_def queue_pop_def run_tasks_def
           split: list.splits if_splits)

lemma noexcept_no_throw: "noexcept r \<noteq> Throws e s1"
  by (cases r) (simp_all add: noexcept_def)

lemma proc_one_no_throw: "proc_one s \<noteq> Throws e s1"
  by (simp add: proc_one_def noexcept_no_throw)

subsection \<open>The shutdown flag is never written\<close>

lemma worker_step_never_shut:
  assumes "never_shut s" "worker_step s = Some s1"
  shows "never_shut s1"
proof (cases "worker s")
  case W_Proc
  show ?thesis
  proof (cases "proc_one s")
    case (Returns u s2)
    with assms W_Proc proc_one_frame[OF Returns] show ?thesis
      by (auto simp: worker_step_def never_shut_def)
  next
    case (Throws e s2)
    then show ?thesis by (simp add: proc_one_no_throw)
  qed (use assms W_Proc in \<open>auto simp: worker_step_def never_shut_def settle_def\<close>)
qed (use assms in \<open>auto simp: worker_step_def never_shut_def split: if_splits\<close>)

lemma step_never_shut:
  assumes "never_shut s" "step a s = Some s1"
  shows "never_shut s1"
proof (cases a)
  case Work
  with assms worker_step_never_shut show ?thesis by (auto simp: step_def split: if_splits)
next
  case (AddCallback cb)
  with assms show ?thesis
    by (auto simp: step_def settle_def add_callback_def add_callback_at_def never_shut_def split: if_splits)
next
  case PopBody
  with assms show ?thesis
    by (auto simp: step_def settle_def queue_pop_def never_shut_def split: if_splits list.splits)
next
  case StopJoin
  with assms show ?thesis
    by (auto simp: step_def settle_def noexcept_def thread_join_def never_shut_def split: if_splits)
qed (use assms in \<open>auto simp: step_def never_shut_def notify_one_def push_def split: if_splits\<close>)

lemma run_never_shut: "never_shut s \<Longrightarrow> never_shut (run sched s)"
  unfolding run_def
proof (induction sched arbitrary: s)
  case Nil
  then show ?case by simp
next
  case (Cons a sched)
  have "never_shut (attempt a s)"
    using Cons.prems step_never_shut[of s a] by (cases "step a s") (auto simp: attempt_def)
  then show ?case using Cons.IH by simp
qed

lemma constructed_never_shut: "never_shut (constructed func remaining w)"
  by (simp add: constructed_eq never_shut_def fresh_def)

subsection \<open>The registry stays filled from the left\<close>

lemma worker_step_tasks:
  assumes "worker_step s = Some s1"
  shows "tasks s1 = tasks s"
proof (cases "worker s")
  case W_Proc
  show ?thesis
  proof (cases "proc_one s")
    case (Returns u s2)
    with assms W_Proc proc_one_frame[OF Returns] show ?thesis
      by (auto simp: worker_step_def)
  next
    case (Throws e s2)
    then show ?thesis by (simp add: proc_one_no_throw)
  qed (use assms W_Proc in \<open>auto simp: worker_step_def settle_def\<close>)
next
  case W_Drain
  show ?thesis
  proof (cases "proc_one s")
    case (Returns u s2)
    with assms W_Drain proc_one_frame[OF Returns] show ?thesis
      by (auto simp: worker_step_def)
  next
    case (Throws e s2)
    then show ?thesis by (simp add: proc_one_no_throw)
  qed (use assms W_Drain in \<open>auto simp: worker_step_def settle_def\<close>)
qed (use assms in \<open>auto simp: worker_step_def split: if_splits\<close>)

lemma step_tasks_filled:
  assumes "filled_left_to_right (tasks s)" "step a s = Some s1"
  shows "filled_left_to_right (tasks s1)"
proof (cases a)
  case Work
  with assms(2) have "worker_step s = Some s1" by (simp add: step_def split: if_splits)
  from worker_step_tasks[OF this] assms(1) show ?thesis by simp
next
  case (AddCallback cb)
  from assms(1) have tail: "list_all (\<lambda>func. func = None) (dropWhile has_function (tasks s))"
    and len: "length (tasks s) = MAX_TASK_SIZE"
    by (simp_all add: filled_left_to_right_def)
  have n: "tasks_count s = lowest_empty_slot (tasks s)"
    unfolding tasks_count_def by (rule count_eq_lowest[OF tail])
  from assms AddCallback filled_update[OF tail, of cb] n len show ?thesis
    by (auto simp: step_def settle_def add_callback_def add_callback_at_def filled_left_to_right_def split: if_splits)
next
  case PopBody
  with assms show ?thesis
    by (auto simp: step_def settle_def queue_pop_def split: if_splits list.splits)
next
  case StopJoin
  with assms show ?thesis
    by (auto simp: step_def settle_def noexcept_def thread_join_def split: if_splits)
qed (use assms in \<open>auto simp: step_def notify_one_def push_def split: if_splits\<close>)

lemma run_tasks_filled:
  "filled_left_to_right (tasks s) \<Longrightarrow> filled_left_to_right (tasks (run sched s))"
  unfolding run_def
proof (induction sched arbitrary: s)
  case Nil
  then show ?case by simp
next
  case (Cons a sched)
  have "filled_left_to_right (tasks (attempt a s))"
    using Cons.prems step_tasks_filled[of s a] by (cases "step a s") (auto simp: attempt_def)
  then show ?case using Cons.IH by simp
qed

lemma constructed_tasks_filled: "filled_left_to_right (tasks (constructed func remaining w))"
  by (cases func)
     (simp_all add: constructed_eq fresh_def filled_left_to_right_def MAX_TASK_SIZE_def
        eval_nat_numeral all_None_replicate all_None_dropWhile)

text \<open>
  Whatever the threads of the program do with a constructed queue, its registry has
  \<open>MAX_TASK_SIZE\<close> slots and is filled from the left.
\<close>

lemma reachable_tasks_filled:
  "filled_left_to_right (tasks (run sched (constructed func remaining w)))"
  by (rule run_tasks_filled[OF constructed_tasks_filled])

subsection \<open>A worker that starts before the flag is initialised\<close>

text \<open>
  A construction in which the worker makes its first test of line 74 before the
  initialiser of \<open>shutdown_required\<close> has run, and reads the flag as true: it goes to the
  second loop, finds the queue empty and returns; the initialiser then makes the flag
  false. Values pushed afterwards are never processed, a call of \<open>stop()\<close> returns, and
  a second call of \<open>stop()\<close> ends in \<open>std::terminate\<close>.
\<close>

lemma early_worker_start:
  "(let s0 = attempt Work (example_queue\<lparr>shutdown_required := True\<rparr>);
        s1 = run [Work, Push 1, Push 2, StopEnter, StopJoin] (s0\<lparr>shutdown_required := False\<rparr>);
        s2 = run [StopEnter, StopJoin] s1
    in (worker s1, storage s1, world s1, stopped s1, joinable s1, fault s1, fault s2)) =
   (W_Done, [1, 2], [], 1, False, None, Some Terminate)"
  by code_simp

section \<open>Properties of the specification\<close>

subsection \<open>C1: the shutdown flag\<close>

text \<open>
  C1. The flag \<open>shutdown_required\<close> is false after construction, and \<open>stop()\<close> is to
  set it before it wakes and joins the worker. In the source no statement assigns the
  flag: \<open>stop()\<close> is \<open>condition.notify_one(); thread.join();\<close>. Whatever the worker and
  the threads of the program do with a constructed queue, in any order and with any
  number of calls of \<open>stop()\<close>, the flag is false; in particular the notification at the
  start of \<open>stop()\<close> leaves it as it is.
\<close>

theorem shutdown_flag_never_set:
  "shutdown_required (run sched (constructed func remaining w)) = False \<and>
   shutdown_required (notify_one s) = shutdown_required s"
proof -
  have "never_shut (run sched (constructed func remaining w))"
    by (rule run_never_shut[OF constructed_never_shut])
  then show ?thesis by (simp add: never_shut_def notify_one_def)
qed

subsection \<open>C2: the log after \<open>stop()\<close>\<close>

text \<open>
  An execution of the header's example: two values are pushed and \<open>stop()\<close> is called;
  the worker is given enough steps to process both, and the join of \<open>stop()\<close> is
  attempted. Both values have been printed, in order, the queue is empty, the worker is
  blocked in its wait, and the caller of \<open>stop()\<close> is still inside the join.
\<close>

lemma example_stop_run:
  "(let s = run [Push 1, Push 2, StopEnter, Work, Work, Work, Work, Work, Work, Work, Work,
                 Work, Work, Work, StopJoin] example_queue
    in (world s, storage s, worker s, in_stop s, stopped s, fault s)) =
   ([1, 2], [], W_Wait, 1, 0, None)"
  by code_simp

text \<open>
  C2. After \<open>stop()\<close> has returned, the log of a single logging callback is to hold the
  pushed values in order. In the source \<open>stop()\<close> does not return: the worker leaves its
  first loop only when \<open>shutdown_required\<close> is true, which never happens, so
  \<open>thread_work\<close> does not return and \<open>thread.join()\<close> waits for ever. Whatever the
  worker and the threads of the program do with a constructed queue, no call of
  \<open>stop()\<close> has returned and the worker has not finished. (When the worker reads the
  flag before its initialiser has run, \<open>stop()\<close> can return, with the pushed values
  unprocessed: \<open>early_worker_start\<close>.)
\<close>

theorem stop_never_returns:
  "stopped (run sched (constructed func remaining w)) = 0 \<and>
   worker (run sched (constructed func remaining w)) \<noteq> W_Done"
proof -
  have "never_shut (run sched (constructed func remaining w))"
    by (rule run_never_shut[OF constructed_never_shut])
  then show ?thesis by (simp add: never_shut_def)
qed

subsection \<open>C3: \<open>push\<close>\<close>

text \<open>
  C3. \<open>push(value)\<close> is to append under the lock and to wake a worker that waits for
  work. The source's \<open>push\<close> appends and does nothing else: it takes no lock and performs
  no notification. With the worker of the example queue blocked in its wait (after three
  steps), \<open>push(7)\<close> appends 7; the worker is still blocked, it cannot take a step, and
  however often it is scheduled the value is not processed.
\<close>

theorem push_does_not_wake_worker:
  "worker (run [Work, Work, Work] example_queue) = W_Wait \<and>
   storage (run [Work, Work, Work, Push 7] example_queue) = [7] \<and>
   worker (run [Work, Work, Work, Push 7] example_queue) = W_Wait \<and>
   mutex (run [Work, Work, Work, Push 7] example_queue) = None \<and>
   map_option worker (step Work (run [Work, Work, Work, Push 7] example_queue)) = None \<and>
   storage (run [Work, Work, Work, Push 7, Work, Work, Work] example_queue) = [7] \<and>
   world (run [Work, Work, Work, Push 7, Work, Work, Work] example_queue) = []"
  by code_simp

subsection \<open>C4: \<open>add_callback\<close>\<close>

text \<open>
  C4. \<open>add_callback(f)\<close> is to write \<open>f\<close> into the empty slot of lowest index, and to
  throw \<open>CapacityExceeded\<close> only when all slots are occupied. The source attempts this
  (\<open>tasks.at(...)\<close> inside a handler for \<open>std::out_of_range\<close>) but writes the index as
  \<open>tasks()\<close>, which is ill-formed: the member cannot be instantiated, and which slot is
  written is not fixed by the source. On the example queue, where slot 0 is occupied
  and slot 1 is the lowest empty slot: with the size of the array standing for
  \<open>tasks()\<close> the call throws \<open>CapacityExceeded\<close> although nine slots are empty; with
  the count of occupied slots standing for it the call writes slot 1.
\<close>

theorem add_callback_slot_not_fixed_by_source:
  "tasks_count example_queue = 1 \<and>
   lowest_empty_slot (tasks example_queue) = 1 \<and>
   add_callback_at (\<lambda>s. length (tasks s)) Caller (Some double_callback) example_queue
     = Throws CapacityExceeded example_queue \<and>
   add_callback_at tasks_count Caller (Some double_callback) example_queue
     = Returns () (example_queue\<lparr>tasks := (tasks example_queue)[1 := Some double_callback]\<rparr>)"
  by (simp add: add_callback_at_def can_lock_def tasks_count_def lowest_empty_slot_def
      example_queue_eq MAX_TASK_SIZE_def)

subsection \<open>C5: the constructor\<close>

text \<open>
  C5. The constructor is to register all the callbacks it is given, in argument order,
  and to fail when there are more than \<open>MAX_TASK_SIZE\<close>. The source's constructor
  registers its first argument only. Constructed with two callbacks, the queue has one
  occupied slot, slot 0; constructed with eleven, it has one occupied slot as well, and
  the constructor has returned.
\<close>

theorem constructor_registers_first_only:
  "tasks_count (constructed (Some print_callback) [Some double_callback] []) = 1 \<and>
   map has_function (tasks (constructed (Some print_callback) [Some double_callback] []))
     = [True, False, False, False, False, False, False, False, False, False] \<and>
   tasks_count (constructed (Some print_callback) (replicate 10 (Some double_callback)) []) = 1 \<and>
   proqueue_ctor (Some print_callback) (replicate 10 (Some double_callback)) []
     = Returns () (constructed (Some print_callback) (replicate 10 (Some double_callback)) [])"
proof -
  have "tasks_count (constructed (Some print_callback) [Some double_callback] []) = 1"
    by code_simp
  moreover have "map has_function (tasks (constructed (Some print_callback) [Some double_callback] []))
     = [True, False, False, False, False, False, False, False, False, False]"
    by code_simp
  moreover have "tasks_count (constructed (Some print_callback) (replicate 10 (Some double_callback)) []) = 1"
    by code_simp
  ultimately show ?thesis by (simp add: ctor_returns)
qed

subsection \<open>C6: access to an empty queue\<close>

text \<open>
  C6, as stated: \<open>pop()\<close>, \<open>front()\<close> and \<open>back()\<close> on an empty sequence fail with
  \<open>EmptyQueueAccess\<close>. On the example queue, which is empty, none of them does.
\<close>

theorem empty_access_counterexample:
  "pop Caller example_queue \<noteq> Throws EmptyQueueAccess example_queue \<and>
   front example_queue \<noteq> Throws EmptyQueueAccess example_queue \<and>
   back_q example_queue \<noteq> Throws EmptyQueueAccess example_queue"
  by (simp add: pop_def queue_pop_def front_def back_q_def example_queue_eq can_lock_def)

text \<open>
  C6, amended: \<open>pop()\<close>, \<open>front()\<close> and \<open>back()\<close> test nothing and raise nothing. On an
  empty sequence (and, for \<open>pop()\<close>, once its caller has had the lock) their behaviour
  is undefined: they are the members of \<open>std::queue\<close>, whose precondition is a non-empty
  sequence.
\<close>

theorem empty_access_is_undefined:
  assumes "storage s = []" and "can_lock t s"
  shows "pop t s = Undefined \<and> front s = Undefined \<and> back_q s = Undefined"
  using assms by (simp add: pop_def queue_pop_def front_def back_q_def)

theorem empty_access_is_undefined_witness:
  "storage example_queue = [] \<and> can_lock Caller example_queue \<and>
   pop Caller example_queue = Undefined \<and> front example_queue = Undefined \<and>
   back_q example_queue = Undefined"
proof -
  have h1: "storage example_queue = []" by (simp add: example_queue_eq)
  have h2: "can_lock Caller example_queue" by (simp add: example_queue_eq can_lock_def)
  from empty_access_is_undefined[OF h1 h2] h1 h2 show ?thesis by simp
qed

subsection \<open>C7: the worker and the empty queue\<close>

text \<open>
  The wait of line 77 ends when \<open>shutdown_required\<close> is true, whatever the queue holds,
  and \<open>proc_one()\<close> follows without a test: were the flag set while the worker of the
  example queue waits, the worker would wake and call \<open>front()\<close> on an empty queue.
\<close>

lemma wake_for_shutdown_on_empty_queue:
  "fault (run [Wakeup, Work, Work]
       ((run [Work, Work, Work] example_queue)\<lparr>shutdown_required := True\<rparr>))
     = Some UndefinedBehaviour"
  by code_simp

text \<open>
  C7. The worker is to reach \<open>proc_one\<close> only with a non-empty queue, because it tests
  the queue inside the exclusive region. In the source the public \<open>pop()\<close> removes the
  head outside the region (its lock is a temporary, released before the removal). One
  thread pushes 7 and enters \<open>pop()\<close>; the worker takes the lock and finds the queue
  ready; the thread's removal empties the queue while the worker stands before
  \<open>proc_one()\<close>; the worker's \<open>front()\<close> is then applied to an empty queue.
\<close>

theorem worker_reaches_proc_one_on_empty_queue:
  "worker (run [Push 7, PopEnter, Work, Work, Work] example_queue) = W_Proc \<and>
   storage (run [Push 7, PopEnter, Work, Work, Work] example_queue) = [7] \<and>
   mutex (run [Push 7, PopEnter, Work, Work, Work] example_queue) = Some Worker \<and>
   worker (run [Push 7, PopEnter, Work, Work, Work, PopBody] example_queue) = W_Proc \<and>
   storage (run [Push 7, PopEnter, Work, Work, Work, PopBody] example_queue) = [] \<and>
   fault (run [Push 7, PopEnter, Work, Work, Work, PopBody] example_queue) = None \<and>
   fault (run [Push 7, PopEnter, Work, Work, Work, PopBody, Work] example_queue)
     = Some UndefinedBehaviour"
  by code_simp

subsection \<open>C8: \<open>stop()\<close> twice\<close>

text \<open>
  C8. A second \<open>stop()\<close>, or the destructor after a \<open>stop()\<close>, is to be harmless. The
  source's \<open>stop()\<close> joins without asking whether the handle is joinable: if a call of
  \<open>stop()\<close> has returned, the next call, and the destructor, end in \<open>std::terminate\<close>,
  since \<open>join\<close> throws inside a \<open>noexcept\<close> function. (From a constructed queue the
  first \<open>stop()\<close> does not return, by C2; it does for the worker of
  \<open>early_worker_start\<close>.)
\<close>

theorem second_stop_terminates:
  "stop s = Returns u s1 \<longrightarrow> stop s1 = Terminates \<and> destructor s1 = Terminates"
  by (auto simp: stop_def destructor_def noexcept_def thread_join_def notify_one_def
           split: if_splits outcome.splits)

theorem second_stop_terminates_witness:
  "stop (example_queue\<lparr>worker := W_Done\<rparr>)
     = Returns () (example_queue\<lparr>worker := W_Done, joinable := False\<rparr>) \<and>
   stop (example_queue\<lparr>worker := W_Done, joinable := False\<rparr>) = Terminates \<and>
   destructor (example_queue\<lparr>worker := W_Done, joinable := False\<rparr>) = Terminates"
proof -
  have h: "stop (example_queue\<lparr>worker := W_Done\<rparr>)
     = Returns () (example_queue\<lparr>worker := W_Done, joinable := False\<rparr>)"
    by (simp add: stop_def noexcept_def thread_join_def notify_one_def example_queue_eq)
  from second_stop_terminates[of "example_queue\<lparr>worker := W_Done\<rparr>" "()"
      "example_queue\<lparr>worker := W_Done, joinable := False\<rparr>"] h
  show ?thesis by simp
qed

subsection \<open>C9: the callbacks of one element\<close>

text \<open>
  C9. When the queue is not empty (and the worker can take the lock for the final
  \<open>pop()\<close>), \<open>proc_one\<close> applies the functions of the occupied slots, in slot order,
  each once, to the head element where it lies: each function receives the element as
  the functions before it left it, empty slots are passed over, and after the last
  function the element is still the head of the queue. Only then is it removed.
\<close>

theorem proc_one_runs_occupied_slots_in_order:
  assumes "storage s = v # rest" and "can_lock Worker s"
  shows "run_tasks s = s\<lparr>storage := fst (apply_all (occupied (tasks s)) (v, world s)) # rest,
                          world := snd (apply_all (occupied (tasks s)) (v, world s))\<rparr> \<and>
         proc_one s = Returns () (s\<lparr>storage := rest,
                          world := snd (apply_all (occupied (tasks s)) (v, world s))\<rparr>)"
proof -
  have r: "run_tasks s = s\<lparr>storage := fst (apply_all (occupied (tasks s)) (v, world s)) # rest,
                          world := snd (apply_all (occupied (tasks s)) (v, world s))\<rparr>"
    unfolding run_tasks_def using fold_call_task_eq[OF assms(1)] by simp
  have "can_lock Worker (run_tasks s)" using assms(2) r by (simp add: can_lock_def)
  then have "proc_one s = Returns () (s\<lparr>storage := rest,
                          world := snd (apply_all (occupied (tasks s)) (v, world s))\<rparr>)"
    using assms(1) r by (simp add: proc_one_def noexcept_def front_def pop_def queue_pop_def)
  with r show ?thesis by simp
qed

theorem proc_one_runs_occupied_slots_in_order_witness:
  "storage gapped_queue = 5 # [6] \<and> can_lock Worker gapped_queue \<and>
   storage (run_tasks gapped_queue) = [10, 6] \<and>
   proc_one gapped_queue = Returns () (gapped_queue\<lparr>storage := [6], world := [10]\<rparr>)"
proof -
  have h1: "storage gapped_queue = 5 # [6]" by (simp add: gapped_queue_def)
  have h2: "can_lock Worker gapped_queue"
    by (simp add: gapped_queue_def can_lock_def example_queue_eq)
  have a: "apply_all (occupied (tasks gapped_queue)) (5, world gapped_queue) = (10, [10])"
    by (simp add: gapped_queue_def example_queue_eq occupied_def apply_all_def
        double_callback_def print_callback_def)
  from proc_one_runs_occupied_slots_in_order[OF h1 h2] h1 h2 a show ?thesis by simp
qed

subsection \<open>C10: what \<open>push\<close> and \<open>add_callback\<close> leave alone\<close>

text \<open>
  C10. \<open>push(value)\<close> changes the value sequence and nothing else: the registry and the
  shutdown flag are as before. An \<open>add_callback(f)\<close> that returns changes one slot of
  the registry and nothing else: the value sequence, the shutdown flag and every other
  slot are as before.
\<close>

theorem push_and_add_callback_frame:
  "tasks (push v s) = tasks s \<and> shutdown_required (push v s) = shutdown_required s \<and>
   (\<exists>xs. push v s = s\<lparr>storage := xs\<rparr>) \<and>
   (add_callback t f s = Returns u s1 \<longrightarrow>
      storage s1 = storage s \<and> shutdown_required s1 = shutdown_required s \<and>
      s1 = s\<lparr>tasks := (tasks s)[tasks_count s := f]\<rparr> \<and>
      length (tasks s1) = length (tasks s) \<and>
      (\<forall>i. i \<noteq> tasks_count s \<longrightarrow> tasks s1 ! i = tasks s ! i))"
  by (auto simp: push_def add_callback_def add_callback_at_def split: if_splits)

theorem push_and_add_callback_frame_witness:
  "add_callback Caller (Some double_callback) example_queue
     = Returns () (example_queue\<lparr>tasks := (tasks example_queue)[1 := Some double_callback]\<rparr>) \<and>
   storage (example_queue\<lparr>tasks := (tasks example_queue)[1 := Some double_callback]\<rparr>)
     = storage example_queue \<and>
   tasks_count example_queue = 1 \<and>
   tasks (push 7 example_queue) = tasks example_queue"
proof -
  have h: "add_callback Caller (Some double_callback) example_queue
     = Returns () (example_queue\<lparr>tasks := (tasks example_queue)[1 := Some double_callback]\<rparr>)"
    by (simp add: add_callback_def add_callback_at_def can_lock_def tasks_count_def example_queue_eq MAX_TASK_SIZE_def)
  have c: "tasks_count example_queue = 1"
    by (simp add: tasks_count_def example_queue_eq)
  from push_and_add_callback_frame[of 7 example_queue Caller "Some double_callback" "()"
      "example_queue\<lparr>tasks := (tasks example_queue)[1 := Some double_callback]\<rparr>"] h c
  show ?thesis by simp
qed

end
